theory Spec2Isabelle
  imports Main
begin

section \<open>Errors, durations and instants\<close>

text \<open>
  The Go \<open>error\<close> values that the modelled code can produce. \<open>NotFound\<close> is the
  cache's loader-less miss; \<open>QueryError\<close> and \<open>DecodeError\<close> come from the Fauna
  driver (\<open>faunaClient.Query\<close>, \<open>qRes.Get\<close>); \<open>ErrSyntax\<close> and \<open>ErrRange\<close> are
  the \<open>strconv\<close> errors (\<open>ErrBitSize\<close> is its "invalid bit size" error).
\<close>

datatype error =
    NotFound
  | QueryError string
  | DecodeError string
  | ErrSyntax
  | ErrRange
  | ErrBitSize

text \<open>
  \<open>time.Duration\<close> is a count of nanoseconds and an instant is a count of nanoseconds
  since the epoch; both are integers here.
\<close>

type_synonym Duration = int
type_synonym Time = int

definition Nanosecond :: Duration where "Nanosecond = 1"
definition Second :: Duration where "Second = 1000000000 * Nanosecond"
definition Minute :: Duration where "Minute = 60 * Second"
definition Hour :: Duration where "Hour = 60 * Minute"

section \<open>The TTL cache\<close>

text \<open>
  Modelled from the spec: the generic type \<open>Cache[T]\<close> with \<open>NewCache\<close>, \<open>Has\<close>,
  \<open>Get\<close> and \<open>Store\<close> is declared in a file of the repository that is not among
  the sources (only its uses in \<open>newFaunaClient\<close>, \<open>IsFriendAllowed\<close>,
  \<open>GetCachedFriendName\<close> and \<open>GetCachedFridays\<close> are). The spec's data model:
  \<open>CacheEntry<V> = { value: V, expiresAt: Timestamp }\<close> and
  \<open>TTLCache<K,V> = { ttl, loader: optional Function(K) -> (V, Error), entries }\<close>
  with string keys. A loader is a Go closure over the process's remote client; the
  state it works on is the type parameter \<open>'w\<close>, threaded through explicitly.
\<close>

record 'v CacheEntry =
  entry_value :: 'v
  expiresAt :: Time

record ('w, 'v) Cache =
  ttl :: Duration
  loader :: "('w \<Rightarrow> string \<Rightarrow> 'w \<times> (error + 'v)) option"
  entries :: "string \<rightharpoonup> 'v CacheEntry"

text \<open>
  Modelled from the spec: cache construction \<open>{ ttl, loader }\<close> \<open>constructs one
  TTLCache<string,V>\<close>; entries are only created later, by \<open>Get\<close> or \<open>Store\<close>.
\<close>

definition NewCache ::
  "Duration \<Rightarrow> ('w \<Rightarrow> string \<Rightarrow> 'w \<times> (error + 'v)) option \<Rightarrow> ('w, 'v) Cache" where
  "NewCache d f = \<lparr>ttl = d, loader = f, entries = Map.empty\<rparr>"

text \<open>
  Modelled from the spec: \<open>A key present in entries with expiresAt in the future is
  considered fresh; otherwise it is stale\<close>, and \<open>boundary exactly at expiry is
  treated as stale\<close>. The instant \<open>now\<close> is the clock reading of the operation.
\<close>

definition fresh :: "('w, 'v) Cache \<Rightarrow> Time \<Rightarrow> string \<Rightarrow> bool" where
  "fresh c now key = (case entries c key of None \<Rightarrow> False | Some e \<Rightarrow> now < expiresAt e)"

text \<open>
  Modelled from the spec: \<open>Has(key)\<close> \<open>returns true iff a fresh entry exists for key;
  never triggers the loader; never mutates state\<close>.
\<close>

definition Has :: "('w, 'v) Cache \<Rightarrow> Time \<Rightarrow> string \<Rightarrow> bool" where
  "Has c now key = fresh c now key"

text \<open>
  Modelled from the spec: \<open>Store(key, value)\<close> \<open>unconditionally inserts or overwrites
  the entry for key with a freshly computed expiration\<close> (\<open>now + ttl\<close>), \<open>bypassing
  the loader entirely\<close>.
\<close>

definition Store :: "('w, 'v) Cache \<Rightarrow> Time \<Rightarrow> string \<Rightarrow> 'v \<Rightarrow> ('w, 'v) Cache" where
  "Store c now key v =
     c\<lparr>entries := (entries c)(key \<mapsto> \<lparr>entry_value = v, expiresAt = now + ttl c\<rparr>)\<rparr>"

text \<open>
  Modelled from the spec: \<open>Get(key)\<close> \<open>returns the fresh cached value if present. On
  miss or staleness: if a loader is configured, invoke it with key; on success, store
  the result with a freshly computed expiration (now + ttl) and return it; on loader
  failure, propagate the loader's error and leave any previous (stale) entry
  untouched. If no loader is configured and the key is absent/stale, fails with a
  NotFound condition.\<close>
\<close>

definition Get ::
  "('w, 'v) Cache \<Rightarrow> 'w \<Rightarrow> Time \<Rightarrow> string \<Rightarrow> (error + 'v) \<times> ('w, 'v) Cache \<times> 'w" where
  "Get c w now key =
     (case (if fresh c now key then entries c key else None) of
        Some e \<Rightarrow> (Inr (entry_value e), c, w)
      | None \<Rightarrow>
          (case loader c of
             None \<Rightarrow> (Inl NotFound, c, w)
           | Some f \<Rightarrow>
               (case f w key of
                  (w', Inl err) \<Rightarrow> (Inl err, c, w')
                | (w', Inr v) \<Rightarrow> (Inr v, Store c now key v, w'))))"

section \<open>The remote store\<close>

text \<open>
  The FQL expressions that the code builds with the driver's constructors
  (\<open>f.Exists\<close>, \<open>f.MatchTerm\<close>, ...). The offset of \<open>f.TimeAdd\<close> and the index of
  \<open>f.Select\<close> are Go \<open>int\<close>s that the code only passes on.
\<close>

datatype expr =
    f_Index string
  | f_Match expr
  | f_MatchTerm expr string
  | f_Exists expr
  | f_Get expr
  | f_Now
  | f_TimeAdd expr int string
  | f_Range expr expr expr
  | f_Paginate expr
  | f_Map expr expr
  | f_Lambda string expr
  | f_Select int expr
  | f_Var string

text \<open>The values a query result can hold, as far as the code decodes them.\<close>

datatype fvalue =
    BooleanV bool
  | StringV string
  | TimeV Time
  | ArrayV "fvalue list"
  | ObjectV "(string \<times> fvalue) list"
  | NullV

text \<open>
  \<open>*f.FaunaClient\<close>: the client holds its secret; \<open>service\<close> is the remote store it
  talks to (how the store answers each query, an input of the model), and \<open>sent\<close>
  records the queries issued so far, oldest first, so that "no remote call" and
  "exactly one remote call" are statements about this list.
\<close>

record FaunaClient =
  secret :: string
  service :: "expr \<Rightarrow> error + fvalue"
  sent :: "expr list"

definition f_NewFaunaClient :: "(expr \<Rightarrow> error + fvalue) \<Rightarrow> string \<Rightarrow> FaunaClient" where
  "f_NewFaunaClient svc s = \<lparr>secret = s, service = svc, sent = []\<rparr>"

definition Query :: "FaunaClient \<Rightarrow> expr \<Rightarrow> FaunaClient \<times> (error + fvalue)" where
  "Query fc q = (fc\<lparr>sent := sent fc @ [q]\<rparr>, service fc q)"

text \<open>
  Decoding with \<open>qRes.Get(&x)\<close> and \<open>qRes.At(f.ObjKey(...)).Get(&x)\<close>: the driver
  returns an error when the value (at the path of object keys) does not have the shape
  of the Go target. A null value is no error: its \<open>Get\<close> returns nil and leaves the
  target as it was declared, at the zero value of its type (\<open>false\<close>, the empty string,
  a nil slice, the zero \<open>time.Time\<close>).
\<close>

fun At :: "string list \<Rightarrow> fvalue \<Rightarrow> error + fvalue" where
  "At [] v = Inr v"
| "At (k # ks) (ObjectV kvs) =
     (case map_of kvs k of None \<Rightarrow> Inl (DecodeError k) | Some v \<Rightarrow> At ks v)"
| "At (k # ks) _ = Inl (DecodeError k)"

definition Get_bool :: "fvalue \<Rightarrow> error + bool" where
  "Get_bool v =
     (case v of
        BooleanV b \<Rightarrow> Inr b
      | NullV \<Rightarrow> Inr False
      | _ \<Rightarrow> Inl (DecodeError ''bool''))"

definition Get_string :: "fvalue \<Rightarrow> error + string" where
  "Get_string v =
     (case v of
        StringV s \<Rightarrow> Inr s
      | NullV \<Rightarrow> Inr []
      | _ \<Rightarrow> Inl (DecodeError ''string''))"

text \<open>
  The zero \<open>time.Time\<close> is January 1 of year 1, 00:00:00 UTC, which is 62135596800
  seconds before the epoch.
\<close>

definition zero_Time :: Time where
  "zero_Time = - 62135596800 * Second"

fun Get_times :: "fvalue list \<Rightarrow> error + Time list" where
  "Get_times [] = Inr []"
| "Get_times (TimeV t # vs) =
     (case Get_times vs of Inl e \<Rightarrow> Inl e | Inr ts \<Rightarrow> Inr (t # ts))"
| "Get_times (NullV # vs) =
     (case Get_times vs of Inl e \<Rightarrow> Inl e | Inr ts \<Rightarrow> Inr (zero_Time # ts))"
| "Get_times (_ # vs) = Inl (DecodeError ''time'')"

definition Get_time_array :: "fvalue \<Rightarrow> error + Time list" where
  "Get_time_array v =
     (case v of
        ArrayV vs \<Rightarrow> Get_times vs
      | NullV \<Rightarrow> Inr []
      | _ \<Rightarrow> Inl (DecodeError ''array''))"

section \<open>Decimal formatting and parsing (\<open>strconv\<close>)\<close>

text \<open>
  \<open>strconv.Itoa(i)\<close> is \<open>FormatInt(int64(i), 10)\<close>: the decimal digits of \<open>i\<close>, most
  significant first, after a \<open>-\<close> when \<open>i\<close> is negative.
\<close>

definition digit_char :: "nat \<Rightarrow> char" where
  "digit_char d = ''0123456789'' ! d"

fun digits :: "nat \<Rightarrow> string" where
  "digits n =
     (if n < 10 then [digit_char n]
      else digits (n div 10) @ [digit_char (n mod 10)])"

declare digits.simps [simp del]

definition Itoa :: "int \<Rightarrow> string" where
  "Itoa i = (if i < 0 then CHR ''-'' # digits (nat (- i)) else digits (nat i))"

text \<open>
  \<open>strconv.ParseUint(s, 10, bitSize)\<close>, the loop over the bytes of \<open>s\<close>. The
  accumulator \<open>n\<close> is a \<open>uint64\<close>: its arithmetic is written with the wrap-around
  \<open>mod 2 ^ 64\<close>. In base 10 a letter is a digit \<open>\<ge> base\<close>, a syntax error like any
  other byte that is not a decimal digit. \<open>cutoff\<close> is \<open>maxUint64/10 + 1\<close>.
\<close>

definition cutoff64 :: nat where
  "cutoff64 = (2 ^ 64 - 1) div 10 + 1"

fun ParseUint_loop :: "nat \<Rightarrow> nat \<Rightarrow> string \<Rightarrow> nat \<times> error option" where
  "ParseUint_loop maxVal n [] = (n, None)"
| "ParseUint_loop maxVal n (c # cs) =
     (let b = (of_char c :: nat) in
      if \<not> (48 \<le> b \<and> b \<le> 57) then (0, Some ErrSyntax)
      else
        let d = b - 48 in
        if n \<ge> cutoff64 then (maxVal, Some ErrRange)
        else
          let n' = (n * 10) mod 2 ^ 64;
              n1 = (n' + d) mod 2 ^ 64
          in if n1 < n' \<or> n1 > maxVal then (maxVal, Some ErrRange)
             else ParseUint_loop maxVal n1 cs)"

definition ParseUint :: "string \<Rightarrow> nat \<Rightarrow> nat \<times> error option" where
  "ParseUint s bitSize =
     (if s = [] then (0, Some ErrSyntax)
      else if bitSize > 64 then (0, Some ErrBitSize)
      else
        let bitSize = (if bitSize = 0 then 64 else bitSize);
            maxVal = (2 ^ bitSize mod 2 ^ 64 + (2 ^ 64 - 1)) mod 2 ^ 64
        in ParseUint_loop maxVal 0 s)"

text \<open>\<open>int64(x)\<close>: the two's-complement reading of the low 64 bits.\<close>

definition to_int64 :: "int \<Rightarrow> int" where
  "to_int64 x = (x + 2 ^ 63) mod 2 ^ 64 - 2 ^ 63"

text \<open>
  \<open>strconv.ParseInt(s, 10, bitSize)\<close>: an optional sign, then \<open>ParseUint\<close>, then the range
  check against \<open>1 << (bitSize - 1)\<close>. The result is the pair \<open>(i, err)\<close>.
\<close>

definition ParseInt :: "string \<Rightarrow> nat \<Rightarrow> int \<times> error option" where
  "ParseInt s bitSize =
     (if s = [] then (0, Some ErrSyntax)
      else
        let neg = (hd s = CHR ''-'');
            s' = (if hd s = CHR ''+'' \<or> hd s = CHR ''-'' then tl s else s)
        in case ParseUint s' bitSize of
             (un, err) \<Rightarrow>
               if err \<noteq> None \<and> err \<noteq> Some ErrRange then (0, err)
               else
                 let bitSize = (if bitSize = 0 then 64 else bitSize);
                     cutoff = (2 :: nat) ^ (bitSize - 1)
                 in if \<not> neg \<and> un \<ge> cutoff then (to_int64 (int cutoff - 1), Some ErrRange)
                    else if neg \<and> un > cutoff then (to_int64 (- to_int64 (int cutoff)), Some ErrRange)
                    else
                      let n = to_int64 (int un)
                      in (if neg then to_int64 (- n) else n, None))"

section \<open>The package state and the remote lookups\<close>

text \<open>The package variables of the Fauna file: the client and the three caches.\<close>

record globals =
  faunaClient :: FaunaClient
  fridayCache :: "(FaunaClient, Time list) Cache"
  positiveFriendCache :: "(FaunaClient, string) Cache"
  negativeFriendCache :: "(FaunaClient, bool) Cache"

definition GetFriendName :: "FaunaClient \<Rightarrow> string \<Rightarrow> FaunaClient \<times> (error + string)" where
  "GetFriendName fc friendEmail =
     (case Query fc (f_Get (f_MatchTerm (f_Index ''all_emails'') friendEmail)) of
        (fc', Inl err) \<Rightarrow> (fc', Inl err)
      | (fc', Inr qRes) \<Rightarrow>
          (case At [''data'', ''name''] qRes of
             Inl err \<Rightarrow> (fc', Inl err)
           | Inr v \<Rightarrow>
               (case Get_string v of
                  Inl err \<Rightarrow> (fc', Inl err)
                | Inr name \<Rightarrow> (fc', Inr name))))"

definition UpcomingFridays_query :: "int \<Rightarrow> expr" where
  "UpcomingFridays_query daysAhead =
     f_Map
       (f_Paginate
          (f_Range
             (f_Match (f_Index ''all_fridays_range''))
             f_Now
             (f_TimeAdd (f_TimeAdd f_Now 1 ''days'') daysAhead ''days'')))
       (f_Lambda ''x'' (f_Select 0 (f_Var ''x'')))"

definition GetUpcomingFridays :: "FaunaClient \<Rightarrow> int \<Rightarrow> FaunaClient \<times> (error + Time list)" where
  "GetUpcomingFridays fc daysAhead =
     (case Query fc (UpcomingFridays_query daysAhead) of
        (fc', Inl err) \<Rightarrow> (fc', Inl err)
      | (fc', Inr qRes) \<Rightarrow>
          (case At [''data''] qRes of
             Inl err \<Rightarrow> (fc', Inl err)
           | Inr v \<Rightarrow>
               (case Get_time_array v of
                  Inl err \<Rightarrow> (fc', Inl err)
                | Inr fridays \<Rightarrow> (fc', Inr fridays))))"

definition GetUpcomingFridaysStr ::
  "FaunaClient \<Rightarrow> string \<Rightarrow> FaunaClient \<times> (error + Time list)" where
  "GetUpcomingFridaysStr fc daysAhead =
     (case ParseInt daysAhead 32 of
        (days, Some err) \<Rightarrow> (fc, Inl err)
      | (days, None) \<Rightarrow> GetUpcomingFridays fc days)"

definition newFaunaClient :: "(expr \<Rightarrow> error + fvalue) \<Rightarrow> string \<Rightarrow> Duration \<Rightarrow> globals" where
  "newFaunaClient svc secr cacheTTL =
     \<lparr>faunaClient = f_NewFaunaClient svc secr,
      fridayCache = NewCache cacheTTL (Some GetUpcomingFridaysStr),
      positiveFriendCache = NewCache (24 * Hour) (Some GetFriendName),
      negativeFriendCache = NewCache (5 * Minute) None\<rparr>"

text \<open>
  \<open>IsFriendAllowed\<close> returns the Go pair \<open>(bool, error)\<close> and the package state after
  the call. Each cache operation reads the clock for itself: \<open>clk 0\<close> is the instant of
  the \<open>Has\<close> on the negative cache, \<open>clk 1\<close> of the \<open>Has\<close> on the positive cache and
  \<open>clk 2\<close> of the \<open>Store\<close>.
\<close>

definition IsFriendAllowed ::
  "(nat \<Rightarrow> Time) \<Rightarrow> globals \<Rightarrow> string \<Rightarrow> (bool \<times> error option) \<times> globals" where
  "IsFriendAllowed clk g friendEmail =
     (if Has (negativeFriendCache g) (clk 0) friendEmail then ((False, None), g)
      else if Has (positiveFriendCache g) (clk 1) friendEmail then ((True, None), g)
      else
        (case Query (faunaClient g) (f_Exists (f_MatchTerm (f_Index ''all_emails'') friendEmail)) of
           (fc', Inl err) \<Rightarrow> ((False, Some err), g\<lparr>faunaClient := fc'\<rparr>)
         | (fc', Inr qRes) \<Rightarrow>
             (case Get_bool qRes of
                Inl err \<Rightarrow> ((False, Some err), g\<lparr>faunaClient := fc'\<rparr>)
              | Inr exists \<Rightarrow>
                  ((exists, None),
                   (if \<not> exists
                    then g\<lparr>faunaClient := fc',
                           negativeFriendCache :=
                             Store (negativeFriendCache g) (clk 2) friendEmail False\<rparr>
                    else g\<lparr>faunaClient := fc'\<rparr>)))))"

definition GetCachedFriendName :: "Time \<Rightarrow> globals \<Rightarrow> string \<Rightarrow> (error + string) \<times> globals" where
  "GetCachedFriendName now g friendEmail =
     (case Get (positiveFriendCache g) (faunaClient g) now friendEmail of
        (r, c', fc') \<Rightarrow> (r, g\<lparr>faunaClient := fc', positiveFriendCache := c'\<rparr>))"

definition GetCachedFridays :: "Time \<Rightarrow> globals \<Rightarrow> int \<Rightarrow> (error + Time list) \<times> globals" where
  "GetCachedFridays now g daysAhead =
     (case Get (fridayCache g) (faunaClient g) now (Itoa daysAhead) of
        (r, c', fc') \<Rightarrow> (r, g\<lparr>faunaClient := fc', fridayCache := c'\<rparr>))"

section \<open>The window of a date-range query\<close>

text \<open>
  What a range query asks for. FQL's \<open>Now()\<close> is the instant of the query's
  transaction (the same for every occurrence in one query), and
  \<open>TimeAdd(base, n, unit)\<close> is \<open>base\<close> moved by \<open>n\<close> units, a day being 24 hours.
  \<open>requested_window now q\<close> reads the start and the end of the \<open>Range\<close> that the
  query \<open>q\<close> paginates, for the transaction instant \<open>now\<close>.
\<close>

definition Day :: Duration where "Day = 24 * Hour"

fun time_of :: "Time \<Rightarrow> expr \<Rightarrow> Time option" where
  "time_of now f_Now = Some now"
| "time_of now (f_TimeAdd base n unit) =
     (case time_of now base of
        None \<Rightarrow> None
      | Some t \<Rightarrow>
          if unit = ''days'' \<or> unit = ''day'' then Some (t + n * Day)
          else if unit = ''hours'' \<or> unit = ''hour'' then Some (t + n * Hour)
          else if unit = ''minutes'' \<or> unit = ''minute'' then Some (t + n * Minute)
          else if unit = ''seconds'' \<or> unit = ''second'' then Some (t + n * Second)
          else None)"
| "time_of now _ = None"

fun requested_window :: "Time \<Rightarrow> expr \<Rightarrow> (Time \<times> Time) option" where
  "requested_window now (f_Map (f_Paginate (f_Range src lo hi)) fn) =
     (case (time_of now lo, time_of now hi) of
        (Some a, Some b) \<Rightarrow> Some (a, b)
      | _ \<Rightarrow> None)"
| "requested_window now _ = None"

section \<open>The submit handler\<close>

text \<open>
  The \<open>time.Time\<close> values that the handler builds and hands to the calendar, kept as
  the calls that build them: \<open>time.Unix(sec, nsec)\<close> and \<open>t.Add(d)\<close>. The handler
  does nothing else with them.
\<close>

datatype time_Time = time_Unix int int | time_Add time_Time Duration

text \<open>
  What a handler needs from outside the package: whether \<open>template.ParseFiles\<close> and
  the template's \<open>Execute\<close> succeed for a file, the library function
  \<open>strings.ToLower\<close>, and the calendar. \<open>InviteToCalendarEvent\<close> is declared in a
  file of the repository that is not among the sources, so it is a parameter here: the
  handler only tests its error, and the field tells whether the invitation succeeds.
\<close>

record handler_env =
  ParseFiles :: "string \<Rightarrow> bool"
  Execute :: "string \<Rightarrow> bool"
  ToLower :: "string \<Rightarrow> string"
  InviteToCalendarEvent ::
    "string \<Rightarrow> time_Time \<Rightarrow> time_Time \<Rightarrow> string \<Rightarrow> string \<Rightarrow> bool"

text \<open>
  The answer of a handler: the template it rendered, or the bare status 500 written by
  \<open>Handle500\<close> when its own template fails.
\<close>

datatype response = Rendered string | InternalServerError

definition StaticDir :: string where "StaticDir = ''static''"

text \<open>\<open>path.Join\<close> on two clean, non-empty elements.\<close>

definition path_Join :: "string \<Rightarrow> string \<Rightarrow> string" where
  "path_Join a b = a @ ''/'' @ b"

definition Handle500 :: "handler_env \<Rightarrow> response" where
  "Handle500 env =
     (let file = path_Join StaticDir ''html/500.html'' in
      if \<not> ParseFiles env file then InternalServerError
      else if \<not> Execute env file then InternalServerError
      else Rendered file)"

definition Handle4xx :: "handler_env \<Rightarrow> response" where
  "Handle4xx env =
     (let file = path_Join StaticDir ''html/4xx.html'' in
      if \<not> ParseFiles env file then Handle500 env
      else if \<not> Execute env file then Handle500 env
      else Rendered file)"

text \<open>\<open>url.Values\<close> and its \<open>Get\<close>: the first value of the key, or the empty string.\<close>

type_synonym Values = "string \<rightharpoonup> string list"

definition Values_Get :: "Values \<Rightarrow> string \<Rightarrow> string" where
  "Values_Get form key = (case form key of None \<Rightarrow> [] | Some [] \<Rightarrow> [] | Some (v # vs) \<Rightarrow> v)"

text \<open>
  An invitation sent to the calendar: event id, start, end, friend name and email.
\<close>

type_synonym invitation = "string \<times> time_Time \<times> time_Time \<times> string \<times> string"

text \<open>
  The loop of \<open>HandleSubmit\<close> over the submitted dates, from index \<open>i\<close>. It returns
  whether every date went through (\<open>False\<close>: the handler answered with \<open>Handle500\<close> and
  returned), the package state and the invitations sent. The \<open>Get\<close> on the name cache in
  iteration \<open>i\<close> reads the clock at \<open>clk (3 + i)\<close>.
\<close>

fun submit_dates ::
  "handler_env \<Rightarrow> (nat \<Rightarrow> Time) \<Rightarrow> nat \<Rightarrow> globals \<Rightarrow> string \<Rightarrow> string list \<Rightarrow>
   bool \<times> globals \<times> invitation list" where
  "submit_dates env clk i g email [] = (True, g, [])"
| "submit_dates env clk i g email (d # ds) =
     (case ParseInt d 64 of
        (num, Some err) \<Rightarrow> (False, g, [])
      | (num, None) \<Rightarrow>
          (let pendingDate = time_Unix num 0 in
           case GetCachedFriendName (clk (3 + i)) g email of
             (Inl err, g') \<Rightarrow> (False, g', [])
           | (Inr friendName, g') \<Rightarrow>
               (let inv = (d, pendingDate, time_Add pendingDate (Hour + 5), friendName, email) in
                if \<not> InviteToCalendarEvent env d pendingDate (time_Add pendingDate (Hour + 5))
                         friendName email
                then (False, g', [inv])
                else
                  (case submit_dates env clk (Suc i) g' email ds of
                     (ok, g'', invs) \<Rightarrow> (ok, g'', inv # invs)))))"

definition HandleSubmit ::
  "handler_env \<Rightarrow> (nat \<Rightarrow> Time) \<Rightarrow> globals \<Rightarrow> Values \<Rightarrow>
   response \<times> globals \<times> invitation list" where
  "HandleSubmit env clk g form =
     (let file = path_Join StaticDir ''html/submit.html'' in
      if \<not> ParseFiles env file then (Handle500 env, g, [])
      else
        (case form ''date'' of
           None \<Rightarrow> (Handle4xx env, g, [])
         | Some dates \<Rightarrow>
             (let email = Values_Get form ''email'' in
              if length email = 0 then (Handle4xx env, g, [])
              else
                (let email = ToLower env email in
                 case IsFriendAllowed clk g email of
                   ((ok, err), g1) \<Rightarrow>
                     if \<not> ok then
                       (if err \<noteq> None then (Handle500 env, g1, [])
                        else (Handle4xx env, g1, []))
                     else
                       (case submit_dates env clk 0 g1 email dates of
                          (False, g2, invs) \<Rightarrow> (Handle500 env, g2, invs)
                        | (True, g2, invs) \<Rightarrow>
                            if \<not> Execute env file then (Handle500 env, g2, invs)
                            else (Rendered file, g2, invs))))))"

section \<open>The credential watch loop\<close>

text \<open>
  What the loop needs from outside: the outcome of each probe and how long it takes.
\<close>

text \<open>
  Modelled from the spec: \<open>ListEvents\<close> is declared in a file of the repository that
  is not among the sources. The spec: the loop \<open>performs one read against the remote
  store purely to detect whether stored access credentials have expired\<close>, \<open>never
  interacting with the three caches' stored values\<close>. \<open>ListEvents env i n\<close> is the
  error, if any, of the \<open>i\<close>-th call (counted from 0), asked for \<open>n\<close> events; the loop
  drops the events. \<open>latency env i\<close> is the time that call takes.
\<close>

record watch_env =
  ListEvents :: "nat \<Rightarrow> nat \<Rightarrow> error option"
  latency :: "nat \<Rightarrow> Duration"

datatype log_entry = Warn string error | Debug string

text \<open>
  The state of the loop at the top of its body: the current instant, the instant at
  which the timer's channel delivers, the number of probes made, the log, and the
  package state that the goroutine can reach.
\<close>

record watch_state =
  wnow :: Time
  timer_at :: Time
  checks :: nat
  logged :: "log_entry list"
  glob :: globals

text \<open>
  \<open>time.NewTimer(period)\<close> at instant \<open>t0\<close>: the channel delivers at \<open>t0 + period\<close>.
\<close>

definition WatchCalendar_init :: "Duration \<Rightarrow> Time \<Rightarrow> globals \<Rightarrow> watch_state" where
  "WatchCalendar_init period t0 g =
     \<lparr>wnow = t0, timer_at = t0 + period, checks = 0, logged = [], glob = g\<rparr>"

text \<open>
  One turn of the \<open>for\<close> loop: the probe and its log line; the receive \<open><-timer.C\<close>,
  which returns at once when the timer has already fired and otherwise when it fires;
  then \<open>timer.Reset(period)\<close>, which arms the timer for \<open>period\<close> after that instant.
  Time passes in the probe and in the wait; the other statements take none.
\<close>

definition WatchCalendar_body :: "watch_env \<Rightarrow> Duration \<Rightarrow> watch_state \<Rightarrow> watch_state" where
  "WatchCalendar_body env period st =
     (let entry = (case ListEvents env (checks st) 1 of
                     Some err \<Rightarrow> Warn ''failed to list calendar events'' err
                   | None \<Rightarrow> Debug ''calendar credentials are valid'');
          done_at = wnow st + latency env (checks st);
          woken_at = max done_at (timer_at st)
      in st\<lparr>wnow := woken_at,
            timer_at := woken_at + period,
            checks := Suc (checks st),
            logged := logged st @ [entry]\<rparr>)"

text \<open>
  The loop has no exit: \<open>WatchCalendar\<close> returns \<open>Some ()\<close> if the Go function
  returns and \<open>None\<close> if it runs forever. \<open>WatchCalendar_after n\<close> is the state at
  the top of the body after \<open>n\<close> turns.
\<close>

partial_function (option) WatchCalendar_loop ::
  "watch_env \<Rightarrow> Duration \<Rightarrow> watch_state \<Rightarrow> unit option" where
  "WatchCalendar_loop env period st =
     WatchCalendar_loop env period (WatchCalendar_body env period st)"

definition WatchCalendar :: "watch_env \<Rightarrow> Duration \<Rightarrow> Time \<Rightarrow> globals \<Rightarrow> unit option" where
  "WatchCalendar env period t0 g = WatchCalendar_loop env period (WatchCalendar_init period t0 g)"

definition WatchCalendar_after ::
  "watch_env \<Rightarrow> Duration \<Rightarrow> Time \<Rightarrow> globals \<Rightarrow> nat \<Rightarrow> watch_state" where
  "WatchCalendar_after env period t0 g n =
     (WatchCalendar_body env period ^^ n) (WatchCalendar_init period t0 g)"

text \<open>The log line that the loop writes for its \<open>i\<close>-th probe.\<close>

definition probe_entry :: "watch_env \<Rightarrow> nat \<Rightarrow> log_entry" where
  "probe_entry env i =
     (case ListEvents env i 1 of
        Some err \<Rightarrow> Warn ''failed to list calendar events'' err
      | None \<Rightarrow> Debug ''calendar credentials are valid'')"

section \<open>Repeated reads and example states\<close>

text \<open>Successive calls \<open>Get(key)\<close> on one cache, at the instants \<open>ts\<close> in turn.\<close>

fun Get_each ::
  "('w, 'v) Cache \<Rightarrow> 'w \<Rightarrow> Time list \<Rightarrow> string \<Rightarrow> (error + 'v) list \<times> ('w, 'v) Cache \<times> 'w" where
  "Get_each c w [] key = ([], c, w)"
| "Get_each c w (t # ts) key =
     (case Get c w t key of
        (r, c', w') \<Rightarrow>
          (case Get_each c' w' ts key of (rs, c'', w'') \<Rightarrow> (r # rs, c'', w'')))"

text \<open>
  The package state right after start-up, for a remote store that answers every query
  with \<open>answer\<close>, and a handler environment in which templates and the calendar work
  and the submitted email is already in lower case.
\<close>

definition startup :: "(error + fvalue) \<Rightarrow> globals" where
  "startup answer = newFaunaClient (\<lambda>q. answer) ''secret'' (1 * Hour)"

definition working_env :: handler_env where
  "working_env =
     \<lparr>ParseFiles = (\<lambda>file. True), Execute = (\<lambda>file. True), ToLower = (\<lambda>s. s),
      InviteToCalendarEvent = (\<lambda>eventID start end name email. True)\<rparr>"

text \<open>
  A watch-loop environment in which every probe succeeds and takes one second.
\<close>

definition steady_probe :: watch_env where
  "steady_probe = \<lparr>ListEvents = (\<lambda>i n. None), latency = (\<lambda>i. 1 * Second)\<rparr>"

section \<open>Decimal round trip\<close>

lemma digit_char_code:
  assumes "d < 10"
  shows "(of_char (digit_char d) :: nat) = 48 + d"
proof -
  from assms
  have "d = 0 \<or> d = 1 \<or> d = 2 \<or> d = 3 \<or> d = 4 \<or> d = 5 \<or> d = 6 \<or> d = 7 \<or> d = 8 \<or> d = 9"
    by arith
  then show ?thesis
    by (elim disjE) (simp_all add: digit_char_def)
qed

lemma ParseUint_loop_snoc:
  "ParseUint_loop M n (xs @ [c]) =
     (case ParseUint_loop M n xs of
        (m, None) \<Rightarrow> ParseUint_loop M m [c]
      | (m, Some e) \<Rightarrow> (m, Some e))"
  by (induction xs arbitrary: n) (auto simp: Let_def)

lemma ParseUint_loop_digit:
  assumes "d < 10" and "m * 10 + d \<le> M" and "M < 2 ^ 64"
  shows "ParseUint_loop M m [digit_char d] = (m * 10 + d, None)"
proof -
  have below: "m < cutoff64"
    using assms by (simp add: cutoff64_def)
  have "m * 10 + d < 2 ^ 64"
    using assms by simp
  then have "m * 10 < (2::nat) ^ 64"
    by simp
  then show ?thesis
    using assms below by (simp add: digit_char_code Let_def)
qed

lemma ParseUint_loop_digits:
  "n \<le> M \<Longrightarrow> M < 2 ^ 64 \<Longrightarrow> ParseUint_loop M 0 (digits n) = (n, None)"
proof (induction n rule: digits.induct)
  case (1 n)
  show ?case
  proof (cases "n < 10")
    case True
    then show ?thesis
      using ParseUint_loop_digit [of n 0 M] 1 by (simp add: digits.simps [of n])
  next
    case False
    have "n div 10 \<le> M"
      using 1 by simp
    then have front: "ParseUint_loop M 0 (digits (n div 10)) = (n div 10, None)"
      using 1 False by simp
    have "n div 10 * 10 + n mod 10 = n"
      by simp
    then show ?thesis
      using False front ParseUint_loop_digit [of "n mod 10" "n div 10" M] 1
      by (simp add: digits.simps [of n] ParseUint_loop_snoc)
  qed
qed

lemma digits_not_empty: "digits n \<noteq> []"
  by (subst digits.simps) simp

lemma digits_no_sign: "hd (digits n) \<noteq> CHR ''-'' \<and> hd (digits n) \<noteq> CHR ''+''"
proof (induction n rule: digits.induct)
  case (1 n)
  show ?case
  proof (cases "n < 10")
    case True
    then have "(of_char (digit_char n) :: nat) = 48 + n"
      by (rule digit_char_code)
    then have "digit_char n \<noteq> CHR ''-'' \<and> digit_char n \<noteq> CHR ''+''"
      by auto
    then show ?thesis
      using True by (simp add: digits.simps [of n])
  next
    case False
    then show ?thesis
      using 1 digits_not_empty [of "n div 10"] by (simp add: digits.simps [of n])
  qed
qed

lemma ParseUint_digits_32: "n \<le> 2 ^ 31 \<Longrightarrow> ParseUint (digits n) 32 = (n, None)"
  using ParseUint_loop_digits [of n "2 ^ 32 - 1"] by (simp add: ParseUint_def digits_not_empty)

lemma ParseInt_Itoa_32:
  assumes "- (2 ^ 31) \<le> d" and "d < 2 ^ 31"
  shows "ParseInt (Itoa d) 32 = (d, None)"
proof (cases "d < 0")
  case True
  then have n: "nat (- d) \<le> 2 ^ 31"
    using assms by simp
  show ?thesis
    using True assms ParseUint_digits_32 [OF n]
    by (simp add: ParseInt_def Itoa_def to_int64_def)
next
  case False
  then have n: "nat d \<le> 2 ^ 31"
    using assms by simp
  have "Itoa d = digits (nat d)"
    using False by (simp add: Itoa_def)
  then show ?thesis
    using False assms ParseUint_digits_32 [OF n] digits_no_sign [of "nat d"]
      digits_not_empty [of "nat d"]
    by (simp add: ParseInt_def to_int64_def)
qed

lemma GetCachedFridays_miss:
  assumes "loader (fridayCache g) = Some f" and "\<not> fresh (fridayCache g) now (Itoa d)"
  shows "GetCachedFridays now g d =
           (case f (faunaClient g) (Itoa d) of
              (fc', Inl err) \<Rightarrow> (Inl err, g\<lparr>faunaClient := fc'\<rparr>)
            | (fc', Inr v) \<Rightarrow>
                (Inr v, g\<lparr>faunaClient := fc',
                          fridayCache := Store (fridayCache g) now (Itoa d) v\<rparr>))"
  using assms by (simp add: GetCachedFridays_def Get_def split: prod.split sum.split)

text \<open>
  Claim C10. For every \<open>daysAhead\<close> that fits a signed 32-bit integer, the key that
  \<open>GetCachedFridays\<close> builds with \<open>strconv.Itoa\<close> is parsed back by
  \<open>strconv.ParseInt(key, 10, 32)\<close> to the same number with a nil error, so
  \<open>GetUpcomingFridaysStr\<close> on that key is \<open>GetUpcomingFridays\<close> on \<open>daysAhead\<close>: the
  loader never takes its parse-error branch. On a cache miss \<open>GetCachedFridays\<close>
  therefore returns what \<open>GetUpcomingFridays daysAhead\<close> returns.
\<close>

theorem GetCachedFridays_key_roundtrip:
  assumes "- (2 ^ 31) \<le> daysAhead" and "daysAhead < 2 ^ 31"
  shows "ParseInt (Itoa daysAhead) 32 = (daysAhead, None) \<and>
         GetUpcomingFridaysStr fc (Itoa daysAhead) = GetUpcomingFridays fc daysAhead \<and>
         (loader (fridayCache g) = Some GetUpcomingFridaysStr \<and>
          \<not> fresh (fridayCache g) now (Itoa daysAhead) \<longrightarrow>
            GetCachedFridays now g daysAhead =
              (case GetUpcomingFridays (faunaClient g) daysAhead of
                 (fc', Inl err) \<Rightarrow> (Inl err, g\<lparr>faunaClient := fc'\<rparr>)
               | (fc', Inr v) \<Rightarrow>
                   (Inr v, g\<lparr>faunaClient := fc',
                             fridayCache := Store (fridayCache g) now (Itoa daysAhead) v\<rparr>)))"
proof -
  have parse: "ParseInt (Itoa daysAhead) 32 = (daysAhead, None)"
    using assms by (rule ParseInt_Itoa_32)
  then have str: "GetUpcomingFridaysStr fc' (Itoa daysAhead) = GetUpcomingFridays fc' daysAhead"
    for fc'
    by (simp add: GetUpcomingFridaysStr_def)
  show ?thesis
    using parse str GetCachedFridays_miss [of g GetUpcomingFridaysStr now daysAhead]
    by simp
qed

theorem GetCachedFridays_key_roundtrip_witness:
  "- (2 ^ 31) \<le> (30 :: int) \<and> (30 :: int) < 2 ^ 31 \<and>
   Itoa 30 = ''30'' \<and>
   ParseInt (Itoa 30) 32 = (30, None) \<and>
   loader (fridayCache (startup (Inr (ObjectV [(''data'', ArrayV [TimeV 5])])))) =
     Some GetUpcomingFridaysStr \<and>
   \<not> fresh (fridayCache (startup (Inr (ObjectV [(''data'', ArrayV [TimeV 5])])))) 0 (Itoa 30) \<and>
   fst (GetCachedFridays 0 (startup (Inr (ObjectV [(''data'', ArrayV [TimeV 5])]))) 30) = Inr [5]"
  using GetCachedFridays_key_roundtrip
    [of 30 "faunaClient (startup (Inr (ObjectV [(''data'', ArrayV [TimeV 5])])))"
        "startup (Inr (ObjectV [(''data'', ArrayV [TimeV 5])]))" 0]
  by (simp add: startup_def newFaunaClient_def NewCache_def f_NewFaunaClient_def fresh_def
        GetUpcomingFridays_def Query_def Get_time_array_def Itoa_def digits.simps digit_char_def)

section \<open>The membership check\<close>

lemma IsFriendAllowed_negative_hit:
  "Has (negativeFriendCache g) (clk 0) k \<Longrightarrow> IsFriendAllowed clk g k = ((False, None), g)"
  by (simp add: IsFriendAllowed_def)

lemma IsFriendAllowed_positive_hit:
  "\<not> Has (negativeFriendCache g) (clk 0) k \<Longrightarrow> Has (positiveFriendCache g) (clk 1) k \<Longrightarrow>
   IsFriendAllowed clk g k = ((True, None), g)"
  by (simp add: IsFriendAllowed_def)

lemma IsFriendAllowed_miss_sent:
  "\<not> Has (negativeFriendCache g) (clk 0) k \<Longrightarrow> \<not> Has (positiveFriendCache g) (clk 1) k \<Longrightarrow>
   sent (faunaClient (snd (IsFriendAllowed clk g k))) =
     sent (faunaClient g) @ [f_Exists (f_MatchTerm (f_Index ''all_emails'') k)]"
  by (simp add: IsFriendAllowed_def Query_def split: sum.split)

lemma IsFriendAllowed_miss_result:
  "\<not> Has (negativeFriendCache g) (clk 0) k \<Longrightarrow> \<not> Has (positiveFriendCache g) (clk 1) k \<Longrightarrow>
   service (faunaClient g) (f_Exists (f_MatchTerm (f_Index ''all_emails'') k)) = Inr (BooleanV b) \<Longrightarrow>
   fst (IsFriendAllowed clk g k) = (b, None)"
  by (simp add: IsFriendAllowed_def Query_def Get_bool_def)

text \<open>
  Claim C1. \<open>IsFriendAllowed(k)\<close> consults the caches in a fixed order. A fresh entry
  for \<open>k\<close> in the negative cache gives \<open>(false, nil)\<close> and leaves the whole package
  state, the list of sent queries included, as it was. Otherwise a fresh entry in the
  positive cache (tested with \<open>Has\<close>) gives \<open>(true, nil)\<close>, again with the state
  unchanged, so neither a query nor a loader ran. Only when both miss is a query sent:
  exactly one, the existence query for \<open>k\<close>, and when the store answers it with the
  boolean \<open>b\<close> the call returns \<open>(b, nil)\<close>.
\<close>

theorem IsFriendAllowed_cache_order:
  "(Has (negativeFriendCache g) (clk 0) k \<longrightarrow> IsFriendAllowed clk g k = ((False, None), g)) \<and>
   (\<not> Has (negativeFriendCache g) (clk 0) k \<and> Has (positiveFriendCache g) (clk 1) k \<longrightarrow>
      IsFriendAllowed clk g k = ((True, None), g)) \<and>
   (\<not> Has (negativeFriendCache g) (clk 0) k \<and> \<not> Has (positiveFriendCache g) (clk 1) k \<longrightarrow>
      sent (faunaClient (snd (IsFriendAllowed clk g k))) =
        sent (faunaClient g) @ [f_Exists (f_MatchTerm (f_Index ''all_emails'') k)] \<and>
      (service (faunaClient g) (f_Exists (f_MatchTerm (f_Index ''all_emails'') k)) =
         Inr (BooleanV b) \<longrightarrow>
       fst (IsFriendAllowed clk g k) = (b, None)))"
  using IsFriendAllowed_negative_hit IsFriendAllowed_positive_hit IsFriendAllowed_miss_sent
    IsFriendAllowed_miss_result by blast

theorem IsFriendAllowed_cache_order_witness:
  "(let g = (startup (Inr (BooleanV True)))
             \<lparr>negativeFriendCache :=
                Store (negativeFriendCache (startup (Inr (BooleanV True)))) 0 ''a@x.com'' False\<rparr>
    in Has (negativeFriendCache g) 1 ''a@x.com'' \<and>
       IsFriendAllowed (\<lambda>i. 1) g ''a@x.com'' = ((False, None), g)) \<and>
   (let g = (startup (Inr (BooleanV True)))
             \<lparr>positiveFriendCache :=
                Store (positiveFriendCache (startup (Inr (BooleanV True)))) 0 ''b@x.com'' ''Bo''\<rparr>
    in \<not> Has (negativeFriendCache g) 1 ''b@x.com'' \<and>
       Has (positiveFriendCache g) 1 ''b@x.com'' \<and>
       IsFriendAllowed (\<lambda>i. 1) g ''b@x.com'' = ((True, None), g)) \<and>
   (let g = startup (Inr (BooleanV True))
    in \<not> Has (negativeFriendCache g) 1 ''c@x.com'' \<and>
       \<not> Has (positiveFriendCache g) 1 ''c@x.com'' \<and>
       service (faunaClient g) (f_Exists (f_MatchTerm (f_Index ''all_emails'') ''c@x.com'')) =
         Inr (BooleanV True) \<and>
       sent (faunaClient (snd (IsFriendAllowed (\<lambda>i. 1) g ''c@x.com''))) =
         [f_Exists (f_MatchTerm (f_Index ''all_emails'') ''c@x.com'')] \<and>
       fst (IsFriendAllowed (\<lambda>i. 1) g ''c@x.com'') = (True, None))"
  using IsFriendAllowed_cache_order
          [of "(startup (Inr (BooleanV True)))
                 \<lparr>negativeFriendCache :=
                    Store (negativeFriendCache (startup (Inr (BooleanV True)))) 0 ''a@x.com'' False\<rparr>"
              "\<lambda>i. 1" "''a@x.com''"]
        IsFriendAllowed_cache_order
          [of "(startup (Inr (BooleanV True)))
                 \<lparr>positiveFriendCache :=
                    Store (positiveFriendCache (startup (Inr (BooleanV True)))) 0 ''b@x.com'' ''Bo''\<rparr>"
              "\<lambda>i. 1" "''b@x.com''"]
        IsFriendAllowed_cache_order [of "startup (Inr (BooleanV True))" "\<lambda>i. 1" "''c@x.com''" True]
  by (simp add: startup_def newFaunaClient_def NewCache_def f_NewFaunaClient_def Has_def fresh_def
        Store_def Minute_def Hour_def Second_def Nanosecond_def Let_def)

lemma IsFriendAllowed_positive_untouched:
  "positiveFriendCache (snd (IsFriendAllowed clk g k)) = positiveFriendCache g"
  by (simp add: IsFriendAllowed_def Query_def split: sum.split)

lemma IsFriendAllowed_fridays_untouched:
  "fridayCache (snd (IsFriendAllowed clk g k)) = fridayCache g"
  by (simp add: IsFriendAllowed_def Query_def split: sum.split)

lemma IsFriendAllowed_absent:
  assumes "\<not> Has (negativeFriendCache g) (clk 0) k"
    and "\<not> Has (positiveFriendCache g) (clk 1) k"
    and "service (faunaClient g) (f_Exists (f_MatchTerm (f_Index ''all_emails'') k)) =
           Inr (BooleanV False)"
  shows "IsFriendAllowed clk g k =
           ((False, None),
            g\<lparr>faunaClient :=
                (faunaClient g)\<lparr>sent := sent (faunaClient g) @
                                   [f_Exists (f_MatchTerm (f_Index ''all_emails'') k)]\<rparr>,
              negativeFriendCache := Store (negativeFriendCache g) (clk 2) k False\<rparr>)"
  using assms by (simp add: IsFriendAllowed_def Query_def Get_bool_def)

lemma Has_Store: "t < t0 + ttl c \<Longrightarrow> Has (Store c t0 k v) t k"
  by (simp add: Has_def fresh_def Store_def)

text \<open>
  Claim C2. The membership check never writes the positive cache, whatever the key and
  the outcome. When both caches miss and the store answers that \<open>k\<close> does not exist,
  the call returns \<open>(false, nil)\<close> and the negative cache afterwards is the old one with
  \<open>Store(k, false)\<close> applied at the instant \<open>clk 2\<close>. If that cache has the 5-minute
  TTL, a further call whose clock reads less than 5 minutes after the store returns
  \<open>(false, nil)\<close> and leaves the state as it found it (no query is sent), whatever has
  become of the remote client and store in between (\<open>fc'\<close>).
\<close>

theorem IsFriendAllowed_negative_caching:
  "positiveFriendCache (snd (IsFriendAllowed clk g k)) = positiveFriendCache g \<and>
   (\<not> Has (negativeFriendCache g) (clk 0) k \<and> \<not> Has (positiveFriendCache g) (clk 1) k \<and>
    service (faunaClient g) (f_Exists (f_MatchTerm (f_Index ''all_emails'') k)) =
      Inr (BooleanV False) \<longrightarrow>
      fst (IsFriendAllowed clk g k) = (False, None) \<and>
      negativeFriendCache (snd (IsFriendAllowed clk g k)) =
        Store (negativeFriendCache g) (clk 2) k False \<and>
      (ttl (negativeFriendCache g) = 5 * Minute \<and> clk' 0 < clk 2 + 5 * Minute \<longrightarrow>
         IsFriendAllowed clk' ((snd (IsFriendAllowed clk g k))\<lparr>faunaClient := fc'\<rparr>) k =
           ((False, None), (snd (IsFriendAllowed clk g k))\<lparr>faunaClient := fc'\<rparr>)))"
proof -
  have "IsFriendAllowed clk' ((snd (IsFriendAllowed clk g k))\<lparr>faunaClient := fc'\<rparr>) k =
           ((False, None), (snd (IsFriendAllowed clk g k))\<lparr>faunaClient := fc'\<rparr>)"
    if miss: "\<not> Has (negativeFriendCache g) (clk 0) k"
             "\<not> Has (positiveFriendCache g) (clk 1) k"
      and absent: "service (faunaClient g) (f_Exists (f_MatchTerm (f_Index ''all_emails'') k)) =
                     Inr (BooleanV False)"
      and five: "ttl (negativeFriendCache g) = 5 * Minute" "clk' 0 < clk 2 + 5 * Minute"
  proof -
    have "Has (Store (negativeFriendCache g) (clk 2) k False) (clk' 0) k"
      using five by (simp add: Has_Store)
    then have "Has (negativeFriendCache ((snd (IsFriendAllowed clk g k))\<lparr>faunaClient := fc'\<rparr>))
                 (clk' 0) k"
      using IsFriendAllowed_absent [OF miss absent] by simp
    then show ?thesis
      by (rule IsFriendAllowed_negative_hit)
  qed
  then show ?thesis
    using IsFriendAllowed_positive_untouched [of clk g k] IsFriendAllowed_absent [of g clk k]
    by simp
qed

theorem IsFriendAllowed_negative_caching_witness:
  "(let g = startup (Inr (BooleanV False));
        g' = snd (IsFriendAllowed (\<lambda>i. 0) g ''a@x.com'');
        later = g'\<lparr>faunaClient := (faunaClient g')\<lparr>service := (\<lambda>q. Inr (BooleanV True))\<rparr>\<rparr>
    in \<not> Has (negativeFriendCache g) 0 ''a@x.com'' \<and>
       \<not> Has (positiveFriendCache g) 0 ''a@x.com'' \<and>
       service (faunaClient g) (f_Exists (f_MatchTerm (f_Index ''all_emails'') ''a@x.com'')) =
         Inr (BooleanV False) \<and>
       ttl (negativeFriendCache g) = 5 * Minute \<and>
       5 * Minute - 1 < 0 + 5 * Minute \<and>
       fst (IsFriendAllowed (\<lambda>i. 0) g ''a@x.com'') = (False, None) \<and>
       fst (IsFriendAllowed (\<lambda>i. 5 * Minute - 1) later ''a@x.com'') = (False, None) \<and>
       sent (faunaClient (snd (IsFriendAllowed (\<lambda>i. 5 * Minute - 1) later ''a@x.com''))) =
         sent (faunaClient g'))"
  using IsFriendAllowed_negative_caching
    [of "\<lambda>i. 0" "startup (Inr (BooleanV False))" "''a@x.com''" "\<lambda>i. 5 * Minute - 1"
        "(faunaClient (snd (IsFriendAllowed (\<lambda>i. 0) (startup (Inr (BooleanV False))) ''a@x.com'')))
           \<lparr>service := (\<lambda>q. Inr (BooleanV True))\<rparr>"]
  by (simp add: startup_def newFaunaClient_def NewCache_def f_NewFaunaClient_def Has_def fresh_def
        Let_def)

lemma IsFriendAllowed_query_error:
  assumes "\<not> Has (negativeFriendCache g) (clk 0) k"
    and "\<not> Has (positiveFriendCache g) (clk 1) k"
    and "service (faunaClient g) (f_Exists (f_MatchTerm (f_Index ''all_emails'') k)) = Inl e"
  shows "fst (IsFriendAllowed clk g k) = (False, Some e)"
  using assms by (simp add: IsFriendAllowed_def Query_def)

lemma IsFriendAllowed_decode_error:
  assumes "\<not> Has (negativeFriendCache g) (clk 0) k"
    and "\<not> Has (positiveFriendCache g) (clk 1) k"
    and "service (faunaClient g) (f_Exists (f_MatchTerm (f_Index ''all_emails'') k)) = Inr qRes"
    and "Get_bool qRes = Inl e"
  shows "fst (IsFriendAllowed clk g k) = (False, Some e)"
  using assms by (simp add: IsFriendAllowed_def Query_def)

lemma IsFriendAllowed_error_false:
  "snd (fst (IsFriendAllowed clk g k)) \<noteq> None \<Longrightarrow> \<not> fst (fst (IsFriendAllowed clk g k))"
  by (simp add: IsFriendAllowed_def Query_def split: if_splits sum.splits)

lemma IsFriendAllowed_error_negative_untouched:
  "snd (fst (IsFriendAllowed clk g k)) \<noteq> None \<Longrightarrow>
   negativeFriendCache (snd (IsFriendAllowed clk g k)) = negativeFriendCache g"
  by (simp add: IsFriendAllowed_def Query_def split: if_splits sum.splits)

lemma IsFriendAllowed_null_answer:
  assumes "\<not> Has (negativeFriendCache g) (clk 0) k"
    and "\<not> Has (positiveFriendCache g) (clk 1) k"
    and "service (faunaClient g) (f_Exists (f_MatchTerm (f_Index ''all_emails'') k)) = Inr NullV"
  shows "fst (IsFriendAllowed clk g k) = (False, None) \<and>
         negativeFriendCache (snd (IsFriendAllowed clk g k)) =
           Store (negativeFriendCache g) (clk 2) k False"
  using assms by (simp add: IsFriendAllowed_def Query_def Get_bool_def)

lemma HandleSubmit_error:
  assumes "ParseFiles env (path_Join StaticDir ''html/submit.html'')"
    and "form ''date'' = Some dates"
    and "Values_Get form ''email'' \<noteq> []"
    and "snd (fst (IsFriendAllowed clk g (ToLower env (Values_Get form ''email'')))) \<noteq> None"
  shows "HandleSubmit env clk g form =
           (Handle500 env,
            snd (IsFriendAllowed clk g (ToLower env (Values_Get form ''email''))), [])"
proof -
  obtain ok err g1
    where r: "IsFriendAllowed clk g (ToLower env (Values_Get form ''email'')) = ((ok, err), g1)"
    by (metis prod.exhaust)
  have "err \<noteq> None"
    using assms(4) r by simp
  moreover have "\<not> ok"
    using IsFriendAllowed_error_false [OF assms(4)] r by simp
  ultimately show ?thesis
    using assms(1-3) r by (simp add: HandleSubmit_def Let_def)
qed

text \<open>
  Claim C3. When both caches miss and the existence query fails, either with a query
  error or with a result whose decoding to a boolean returns an error (a null result
  is not one: it decodes to \<open>false\<close> with a nil error), \<open>IsFriendAllowed\<close> returns
  that error together with \<open>false\<close>. Whenever it returns an error at all, the boolean is
  \<open>false\<close> and the three caches are exactly as before the call. \<open>HandleSubmit\<close>, given a
  request that reaches the check (its template parses, a \<open>date\<close> is present, the email is
  not empty), then answers with \<open>Handle500\<close> and returns: no invitation is sent.
\<close>

theorem IsFriendAllowed_fail_closed:
  "(\<not> Has (negativeFriendCache g) (clk 0) k \<and> \<not> Has (positiveFriendCache g) (clk 1) k \<and>
    service (faunaClient g) (f_Exists (f_MatchTerm (f_Index ''all_emails'') k)) = Inl e \<longrightarrow>
      fst (IsFriendAllowed clk g k) = (False, Some e)) \<and>
   (\<not> Has (negativeFriendCache g) (clk 0) k \<and> \<not> Has (positiveFriendCache g) (clk 1) k \<and>
    service (faunaClient g) (f_Exists (f_MatchTerm (f_Index ''all_emails'') k)) = Inr qRes \<and>
    Get_bool qRes = Inl e \<longrightarrow>
      fst (IsFriendAllowed clk g k) = (False, Some e)) \<and>
   (snd (fst (IsFriendAllowed clk g k)) \<noteq> None \<longrightarrow>
      \<not> fst (fst (IsFriendAllowed clk g k)) \<and>
      negativeFriendCache (snd (IsFriendAllowed clk g k)) = negativeFriendCache g \<and>
      positiveFriendCache (snd (IsFriendAllowed clk g k)) = positiveFriendCache g \<and>
      fridayCache (snd (IsFriendAllowed clk g k)) = fridayCache g \<and>
      (ParseFiles env (path_Join StaticDir ''html/submit.html'') \<and>
       form ''date'' = Some dates \<and> Values_Get form ''email'' \<noteq> [] \<and>
       ToLower env (Values_Get form ''email'') = k \<longrightarrow>
         HandleSubmit env clk g form = (Handle500 env, snd (IsFriendAllowed clk g k), [])))"
  using IsFriendAllowed_query_error [of g clk k e] IsFriendAllowed_decode_error [of g clk k qRes e]
    IsFriendAllowed_error_false [of clk g k] IsFriendAllowed_error_negative_untouched [of clk g k]
    IsFriendAllowed_positive_untouched [of clk g k] IsFriendAllowed_fridays_untouched [of clk g k]
    HandleSubmit_error [of env form dates clk g]
  by blast

theorem IsFriendAllowed_fail_closed_witness:
  "(let g = startup (Inl (QueryError ''unavailable''));
        form = [''date'' \<mapsto> [''1700000000''], ''email'' \<mapsto> [''a@x.com'']]
    in \<not> Has (negativeFriendCache g) 0 ''a@x.com'' \<and>
       \<not> Has (positiveFriendCache g) 0 ''a@x.com'' \<and>
       service (faunaClient g) (f_Exists (f_MatchTerm (f_Index ''all_emails'') ''a@x.com'')) =
         Inl (QueryError ''unavailable'') \<and>
       fst (IsFriendAllowed (\<lambda>i. 0) g ''a@x.com'') = (False, Some (QueryError ''unavailable'')) \<and>
       snd (fst (IsFriendAllowed (\<lambda>i. 0) g ''a@x.com'')) \<noteq> None \<and>
       ParseFiles working_env (path_Join StaticDir ''html/submit.html'') \<and>
       form ''date'' = Some [''1700000000''] \<and>
       Values_Get form ''email'' \<noteq> [] \<and>
       ToLower working_env (Values_Get form ''email'') = ''a@x.com'' \<and>
       fst (HandleSubmit working_env (\<lambda>i. 0) g form) = Rendered ''static/html/500.html'' \<and>
       snd (snd (HandleSubmit working_env (\<lambda>i. 0) g form)) = []) \<and>
   (let g = startup (Inr (StringV ''yes''))
    in \<not> Has (negativeFriendCache g) 0 ''a@x.com'' \<and>
       \<not> Has (positiveFriendCache g) 0 ''a@x.com'' \<and>
       service (faunaClient g) (f_Exists (f_MatchTerm (f_Index ''all_emails'') ''a@x.com'')) =
         Inr (StringV ''yes'') \<and>
       Get_bool (StringV ''yes'') = Inl (DecodeError ''bool'') \<and>
       fst (IsFriendAllowed (\<lambda>i. 0) g ''a@x.com'') = (False, Some (DecodeError ''bool'')))"
  using IsFriendAllowed_fail_closed
    [of "startup (Inl (QueryError ''unavailable''))" "\<lambda>i. 0" "''a@x.com''"
        "QueryError ''unavailable''" "NullV" working_env
        "[''date'' \<mapsto> [''1700000000''], ''email'' \<mapsto> [''a@x.com'']]" "[''1700000000'']"]
    IsFriendAllowed_fail_closed
    [of "startup (Inr (StringV ''yes''))" "\<lambda>i. 0" "''a@x.com''"
        "DecodeError ''bool''" "StringV ''yes''" working_env Map.empty "[]"]
  by (simp add: startup_def newFaunaClient_def NewCache_def f_NewFaunaClient_def Has_def fresh_def
        Let_def working_env_def Values_Get_def Get_bool_def Handle500_def path_Join_def
        StaticDir_def)

section \<open>The cache contract\<close>

lemma Get_after_Store:
  "t < t0 + ttl c \<Longrightarrow> Get (Store c t0 k v) w t k = (Inr v, Store c t0 k v, w)"
  by (simp add: Get_def fresh_def Store_def)

lemma Get_each_after_Store:
  "\<forall>t \<in> set ts. t < t0 + ttl c \<Longrightarrow>
   Get_each (Store c t0 k v) w ts k = (map (\<lambda>t. Inr v) ts, Store c t0 k v, w)"
  by (induction ts) (simp_all add: Get_after_Store)

text \<open>
  Claim C4. On any cache, \<open>Store(k, v)\<close> at instant \<open>t0\<close> sets the entry of \<open>k\<close> to
  \<open>v\<close> with expiration \<open>t0 + ttl\<close>, whatever was there, and changes neither the other
  entries nor the TTL nor the loader; it does not look at the loader. A \<open>Get(k)\<close> at
  any instant before \<open>t0 + ttl\<close> then returns \<open>v\<close> and leaves the cache and the
  loader's state \<open>w\<close> as they were, so the loader did not run; the same holds for every
  call of a sequence of \<open>Get(k)\<close> at instants before \<open>t0 + ttl\<close>.
\<close>

theorem Store_then_Get:
  "entries (Store c t0 k v) = (entries c)(k \<mapsto> \<lparr>entry_value = v, expiresAt = t0 + ttl c\<rparr>) \<and>
   ttl (Store c t0 k v) = ttl c \<and>
   loader (Store c t0 k v) = loader c \<and>
   (t < t0 + ttl c \<longrightarrow> Get (Store c t0 k v) w t k = (Inr v, Store c t0 k v, w)) \<and>
   ((\<forall>t \<in> set ts. t < t0 + ttl c) \<longrightarrow>
      Get_each (Store c t0 k v) w ts k = (map (\<lambda>t. Inr v) ts, Store c t0 k v, w))"
  using Get_after_Store [of t t0 c k v w] Get_each_after_Store [of ts t0 c k v w]
  by (simp add: Store_def)

theorem Store_then_Get_witness:
  "(let c = Store (NewCache 10 (Some (\<lambda>w key. (Suc w, Inr (7 :: nat))))) 0 ''k'' 1
    in (109 :: int) < 100 + ttl c \<and>
       (100 :: int) < 100 + ttl c \<and> (105 :: int) < 100 + ttl c \<and>
       Get c (0 :: nat) 100 ''k'' = (Inr 7, Store c 100 ''k'' 7, 1) \<and>
       Get (Store c 100 ''k'' 42) (0 :: nat) 109 ''k'' = (Inr 42, Store c 100 ''k'' 42, 0) \<and>
       Get_each (Store c 100 ''k'' 42) (0 :: nat) [100, 105, 109] ''k'' =
         ([Inr 42, Inr 42, Inr 42], Store c 100 ''k'' 42, 0))"
  using Store_then_Get
    [of "Store (NewCache 10 (Some (\<lambda>w key. (Suc w, Inr (7 :: nat))))) 0 ''k'' 1" 100 "''k''" 42
        109 "0 :: nat" "[100, 105, 109]"]
  by (simp add: Let_def NewCache_def Store_def Get_def fresh_def)

text \<open>
  Claim C5. \<open>newFaunaClient\<close> sets up the three caches of the package, each empty: the
  positive friend cache with a TTL of 24 hours and \<open>GetFriendName\<close> as loader, the
  negative friend cache with a TTL of 5 minutes and no loader, and the Friday cache
  with the TTL it is given and \<open>GetUpcomingFridaysStr\<close> as loader.
\<close>

theorem newFaunaClient_caches:
  "ttl (positiveFriendCache (newFaunaClient svc secr cacheTTL)) = 24 * Hour \<and>
   24 * Hour = 86400 * Second \<and>
   loader (positiveFriendCache (newFaunaClient svc secr cacheTTL)) = Some GetFriendName \<and>
   ttl (negativeFriendCache (newFaunaClient svc secr cacheTTL)) = 5 * Minute \<and>
   5 * Minute = 300 * Second \<and>
   loader (negativeFriendCache (newFaunaClient svc secr cacheTTL)) = None \<and>
   ttl (fridayCache (newFaunaClient svc secr cacheTTL)) = cacheTTL \<and>
   loader (fridayCache (newFaunaClient svc secr cacheTTL)) = Some GetUpcomingFridaysStr \<and>
   entries (positiveFriendCache (newFaunaClient svc secr cacheTTL)) = Map.empty \<and>
   entries (negativeFriendCache (newFaunaClient svc secr cacheTTL)) = Map.empty \<and>
   entries (fridayCache (newFaunaClient svc secr cacheTTL)) = Map.empty"
  by (simp add: newFaunaClient_def NewCache_def Hour_def Minute_def)

section \<open>The window of upcoming Fridays\<close>

lemma GetUpcomingFridays_sent:
  "sent (fst (GetUpcomingFridays fc d)) = sent fc @ [UpcomingFridays_query d]"
  by (simp add: GetUpcomingFridays_def Query_def split: sum.split)

text \<open>
  Claim C6, as the code has it. For every \<open>daysAhead\<close>, \<open>GetUpcomingFridays\<close> sends
  exactly one query, and the range that query asks for starts at the current instant
  (the query's \<open>Now()\<close>) and ends \<open>daysAhead\<close> days after one day from now: the window
  is \<open>[now, now + 1 day + daysAhead days]\<close>.
\<close>

theorem GetUpcomingFridays_window:
  "sent (fst (GetUpcomingFridays fc daysAhead)) = sent fc @ [UpcomingFridays_query daysAhead] \<and>
   requested_window now (UpcomingFridays_query daysAhead) =
     Some (now, now + 1 * Day + daysAhead * Day)"
  by (simp add: GetUpcomingFridays_sent) (simp add: UpcomingFridays_query_def)

text \<open>
  The claim as stated puts the start of the window one day after the current time. For
  \<open>daysAhead = 30\<close> and the query sent at instant 0 the requested window is
  \<open>[0, 31 days]\<close>, not \<open>[1 day, 31 days]\<close>.
\<close>

theorem GetUpcomingFridays_window_counterexample:
  "sent (fst (GetUpcomingFridays (faunaClient (startup (Inr NullV))) 30)) =
     [UpcomingFridays_query 30] \<and>
   requested_window 0 (UpcomingFridays_query 30) = Some (0, 31 * Day) \<and>
   requested_window 0 (UpcomingFridays_query 30) \<noteq> Some (0 + 1 * Day, 0 + 1 * Day + 30 * Day)"
  by (simp add: GetUpcomingFridays_def Query_def startup_def newFaunaClient_def
        f_NewFaunaClient_def UpcomingFridays_query_def Day_def Hour_def Minute_def Second_def
        Nanosecond_def)

section \<open>The watch loop\<close>

lemma WatchCalendar_loop_no_result: "WatchCalendar_loop env period st \<noteq> Some u"
proof
  assume "WatchCalendar_loop env period st = Some u"
  then show False
    by (rule WatchCalendar_loop.raw_induct [where P = "\<lambda>_ _ _ _. False", rotated]) blast
qed

lemma WatchCalendar_loop_None: "WatchCalendar_loop env period st = None"
  using WatchCalendar_loop_no_result [of env period st]
  by (cases "WatchCalendar_loop env period st") auto

lemma after_0: "WatchCalendar_after env period t0 g 0 = WatchCalendar_init period t0 g"
  by (simp add: WatchCalendar_after_def)

lemma after_Suc:
  "WatchCalendar_after env period t0 g (Suc n) =
     WatchCalendar_body env period (WatchCalendar_after env period t0 g n)"
  by (simp add: WatchCalendar_after_def)

lemma checks_after: "checks (WatchCalendar_after env period t0 g n) = n"
  by (induction n)
    (simp_all add: after_0 after_Suc WatchCalendar_init_def WatchCalendar_body_def Let_def)

lemma glob_after: "glob (WatchCalendar_after env period t0 g n) = g"
  by (induction n)
    (simp_all add: after_0 after_Suc WatchCalendar_init_def WatchCalendar_body_def Let_def)

lemma timer_after:
  "timer_at (WatchCalendar_after env period t0 g n) =
     wnow (WatchCalendar_after env period t0 g n) + period"
  by (induction n)
    (simp_all add: after_0 after_Suc WatchCalendar_init_def WatchCalendar_body_def Let_def)

lemma wnow_after_Suc:
  "wnow (WatchCalendar_after env period t0 g (Suc n)) =
     max (wnow (WatchCalendar_after env period t0 g n) + latency env n)
         (timer_at (WatchCalendar_after env period t0 g n))"
  by (simp add: after_Suc WatchCalendar_body_def Let_def checks_after)

lemma logged_after:
  "logged (WatchCalendar_after env period t0 g n) = map (probe_entry env) [0..<n]"
  by (induction n)
    (simp_all add: after_0 after_Suc WatchCalendar_init_def WatchCalendar_body_def Let_def
       checks_after probe_entry_def)

text \<open>
  Claim C7, as the code has it. The \<open>n\<close>-th check starts at the instant
  \<open>wnow (WatchCalendar_after ... n)\<close>. The timer is reset after the check has completed
  and the timer has fired, and the next check starts right after the reset: when a
  check starts, the timer is already armed to fire one period later and runs while the
  check runs. The next check starts when both the check is done and the timer has
  fired, so the interval between the starts of two consecutive checks is the larger of
  the period and the latency of the check between them (the period itself whenever the
  check takes no longer than the period).
\<close>

theorem WatchCalendar_interval:
  "timer_at (WatchCalendar_after env period t0 g n) =
     wnow (WatchCalendar_after env period t0 g n) + period \<and>
   wnow (WatchCalendar_after env period t0 g (Suc n)) =
     max (wnow (WatchCalendar_after env period t0 g n) + latency env n)
         (timer_at (WatchCalendar_after env period t0 g n)) \<and>
   wnow (WatchCalendar_after env period t0 g (Suc n)) -
     wnow (WatchCalendar_after env period t0 g n) =
       max period (latency env n)"
  by (simp add: wnow_after_Suc timer_after max_def)

text \<open>
  The claim as stated makes the interval the period plus the latency. With a period of
  one hour and checks that take one second, the first check starts at instant 0 and
  the second one hour later, not one hour and one second later.
\<close>

theorem WatchCalendar_interval_counterexample:
  "wnow (WatchCalendar_after steady_probe (1 * Hour) 0 (startup (Inr NullV)) 0) = 0 \<and>
   wnow (WatchCalendar_after steady_probe (1 * Hour) 0 (startup (Inr NullV)) (Suc 0)) = 1 * Hour \<and>
   latency steady_probe 0 = 1 * Second \<and>
   wnow (WatchCalendar_after steady_probe (1 * Hour) 0 (startup (Inr NullV)) (Suc 0)) -
     wnow (WatchCalendar_after steady_probe (1 * Hour) 0 (startup (Inr NullV)) 0) \<noteq>
       1 * Hour + latency steady_probe 0"
  by (simp add: WatchCalendar_after_def WatchCalendar_init_def WatchCalendar_body_def Let_def
        steady_probe_def Hour_def Minute_def Second_def Nanosecond_def)

text \<open>
  Claim C8. \<open>WatchCalendar\<close> never returns. Whatever the probes answer, after \<open>n\<close>
  turns of the loop exactly \<open>n\<close> probes have been made and the log holds one line for
  each, a warning with the error for a failed probe and a debug line otherwise; a turn
  does not end before the timer has fired; and the package state, with its three
  caches, is the one the loop started with.
\<close>

theorem WatchCalendar_never_stops:
  "WatchCalendar env period t0 g = None \<and>
   checks (WatchCalendar_after env period t0 g n) = n \<and>
   logged (WatchCalendar_after env period t0 g n) = map (probe_entry env) [0..<n] \<and>
   timer_at (WatchCalendar_after env period t0 g n) \<le>
     wnow (WatchCalendar_after env period t0 g (Suc n)) \<and>
   glob (WatchCalendar_after env period t0 g n) = g"
  by (simp add: WatchCalendar_def WatchCalendar_loop_None checks_after logged_after glob_after
        wnow_after_Suc)

end
